theory Spec2Isabelle
  imports Main "HOL-Library.Word"
begin

section \<open>The configuration header of the EdgeChain IoT firmware\<close>

text \<open>
  The source is \<^verbatim>\<open>arduino/edgechain_iot/config.h\<close>: eight object-like macros between
  an include guard. Each macro is a name bound to one literal, so its shallow image is a
  constant of the literal's value: a C string literal is a \<^typ>\<open>string\<close> (its characters,
  without the terminating NUL), a C integer literal is the \<^typ>\<open>int\<close> it denotes.
\<close>

subsection \<open>The eight constants\<close>

text \<open>\<^verbatim>\<open>#define BLE_SERVICE_UUID "12345678-1234-5678-1234-56789abcdef0"\<close>\<close>

definition BLE_SERVICE_UUID :: string where
  "BLE_SERVICE_UUID = ''12345678-1234-5678-1234-56789abcdef0''"

text \<open>\<^verbatim>\<open>#define DATA_CHAR_UUID "87654321-4321-8765-4321-fedcba987654"\<close>\<close>

definition DATA_CHAR_UUID :: string where
  "DATA_CHAR_UUID = ''87654321-4321-8765-4321-fedcba987654''"

text \<open>\<^verbatim>\<open>#define DEVICE_ID "EDGECHAIN_DEMO_001"\<close>\<close>

definition DEVICE_ID :: string where
  "DEVICE_ID = ''EDGECHAIN_DEMO_001''"

text \<open>\<^verbatim>\<open>#define BLE_LOCAL_NAME "EdgeChain-Demo"\<close>\<close>

definition BLE_LOCAL_NAME :: string where
  "BLE_LOCAL_NAME = ''EdgeChain-Demo''"

text \<open>\<^verbatim>\<open>#define READING_INTERVAL_MS 5000\<close>\<close>

definition READING_INTERVAL_MS :: int where
  "READING_INTERVAL_MS = 5000"

text \<open>\<^verbatim>\<open>#define BAUD_RATE 115200\<close>\<close>

definition BAUD_RATE :: int where
  "BAUD_RATE = 115200"

text \<open>\<^verbatim>\<open>#define JSON_BUFFER_SIZE 64\<close>\<close>

definition JSON_BUFFER_SIZE :: int where
  "JSON_BUFFER_SIZE = 64"

text \<open>\<^verbatim>\<open>#define TX_PAYLOAD_MAX_SIZE 256\<close>\<close>

definition TX_PAYLOAD_MAX_SIZE :: int where
  "TX_PAYLOAD_MAX_SIZE = 256"

subsection \<open>Reading a UUID string\<close>

text \<open>
  The vocabulary of the claims about the two UUID strings. A hexadecimal digit is a
  decimal digit or a letter \<open>a\<close>..\<open>f\<close> in either case; the canonical text of a UUID has 36
  characters, a hyphen at the (zero-based) positions 8, 13, 18 and 23 and a hexadecimal
  digit at each of the other 32.
\<close>

definition is_hex_digit :: "char \<Rightarrow> bool" where
  "is_hex_digit c = (c \<in> set ''0123456789abcdefABCDEF'')"

definition hyphen_positions :: "nat list" where
  "hyphen_positions = [8, 13, 18, 23]"

definition uuid_char_ok :: "nat \<Rightarrow> char \<Rightarrow> bool" where
  "uuid_char_ok i c = (if i \<in> set hyphen_positions then c = CHR ''-'' else is_hex_digit c)"

definition canonical_uuid :: "string \<Rightarrow> bool" where
  "canonical_uuid s =
     (length s = 36 \<and> list_all (\<lambda>(i, c). uuid_char_ok i c) (enumerate 0 s))"

text \<open>
  The 128-bit value a UUID string denotes: its hexadecimal digits, most significant
  first, the hyphens skipped.
\<close>

definition hex_digit_value :: "char \<Rightarrow> nat" where
  "hex_digit_value c =
     (let n = of_char c in
      if 48 \<le> n \<and> n \<le> 57 then n - 48
      else if 97 \<le> n \<and> n \<le> 102 then n - 87
      else if 65 \<le> n \<and> n \<le> 70 then n - 55
      else 0)"

definition uuid_value :: "string \<Rightarrow> 128 word" where
  "uuid_value s =
     foldl (\<lambda>acc c. 16 * acc + of_nat (hex_digit_value c)) 0
       (filter (\<lambda>c. c \<noteq> CHR ''-'') s)"

text \<open>Letter case, as a case-sensitive comparison of UUID strings sees it.\<close>

definition is_upper :: "char \<Rightarrow> bool" where
  "is_upper c = (65 \<le> (of_char c :: nat) \<and> (of_char c :: nat) \<le> 90)"

definition is_lower_hex_digit :: "char \<Rightarrow> bool" where
  "is_lower_hex_digit c = (c \<in> set ''0123456789abcdef'')"

definition ascii_tolower :: "char \<Rightarrow> char" where
  "ascii_tolower c = (if is_upper c then char_of (of_char c + (32 :: nat)) else c)"

subsection \<open>Serial rates and integer widths\<close>

text \<open>
  The conventional rates of an asynchronous serial line, from 300 to 115200 bits per
  second; the header itself does not enumerate them.
\<close>

definition standard_baud_rates :: "int list" where
  "standard_baud_rates =
     [300, 600, 1200, 2400, 4800, 9600, 14400, 19200, 28800, 38400, 57600, 115200]"

text \<open>The range of a two's complement integer of \<open>w\<close> bits.\<close>

definition fits_signed :: "nat \<Rightarrow> int \<Rightarrow> bool" where
  "fits_signed w v = (- (2 ^ (w - 1)) \<le> v \<and> v < 2 ^ (w - 1))"

subsection \<open>Integer literals\<close>

text \<open>
  A decimal constant of C is a non-zero digit followed by digits; without a suffix, its
  value is the number its digits spell.
\<close>

definition is_digit :: "char \<Rightarrow> bool" where
  "is_digit c = (c \<in> set ''0123456789'')"

definition digit_value :: "char \<Rightarrow> nat" where
  "digit_value c = of_char c - 48"

fun decimal_constant :: "string \<Rightarrow> int option" where
  "decimal_constant [] = None"
| "decimal_constant (c # cs) =
     (if is_digit c \<and> c \<noteq> CHR ''0'' \<and> list_all is_digit cs
      then Some (int (foldl (\<lambda>a d. 10 * a + digit_value d) 0 (c # cs)))
      else None)"

section \<open>The header as the preprocessor reads it\<close>

text \<open>
  The claims about definition, use and change of the constants speak of the header as a
  text of preprocessor lines, so the header is also modelled line by line, with the part
  of the C preprocessor that reads such lines: \<^verbatim>\<open>#ifndef\<close>, \<^verbatim>\<open>#define\<close> of an object-like
  macro, \<^verbatim>\<open>#undef\<close>, \<^verbatim>\<open>#endif\<close>, and text lines, where a macro name is replaced by its
  replacement list. A token is a string literal, a number (kept as it is spelled) or an
  identifier.
\<close>

datatype token = StrLit string | Number string | Ident string

datatype line =
    Ifndef string
  | Define string "token list"
  | Undef string
  | Endif
  | Text "token list"

text \<open>The lines of \<^verbatim>\<open>config.h\<close>, in order (comments and blank lines are no lines).\<close>

definition config_h :: "line list" where
  "config_h =
     [Ifndef ''EDGECHAIN_CONFIG_H'',
      Define ''EDGECHAIN_CONFIG_H'' [],
      Define ''BLE_SERVICE_UUID'' [StrLit ''12345678-1234-5678-1234-56789abcdef0''],
      Define ''DATA_CHAR_UUID'' [StrLit ''87654321-4321-8765-4321-fedcba987654''],
      Define ''DEVICE_ID'' [StrLit ''EDGECHAIN_DEMO_001''],
      Define ''BLE_LOCAL_NAME'' [StrLit ''EdgeChain-Demo''],
      Define ''READING_INTERVAL_MS'' [Number ''5000''],
      Define ''BAUD_RATE'' [Number ''115200''],
      Define ''JSON_BUFFER_SIZE'' [Number ''64''],
      Define ''TX_PAYLOAD_MAX_SIZE'' [Number ''256''],
      Endif]"

text \<open>The macros of a file whose replacement list is one number, with its spelling.\<close>

fun numeric_macro :: "line \<Rightarrow> (string \<times> string) list" where
  "numeric_macro (Define n [Number s]) = [(n, s)]"
| "numeric_macro l = []"

subsection \<open>The preprocessor\<close>











subsection \<open>Named lookup\<close>





subsection \<open>Consumers of the header\<close>











section \<open>Properties of the constants\<close>

subsection \<open>The UUID strings\<close>

lemma list_all_enumerate:
  "list_all (\<lambda>(i, c). P i c) (enumerate n xs) \<longleftrightarrow> (\<forall>i < length xs. P (n + i) (xs ! i))"
  by (simp add: list_all_length nth_enumerate_eq)

lemma uuid_char_ok_iff:
  "uuid_char_ok i c \<longleftrightarrow> (if i \<in> {8, 13, 18, 23} then c = CHR ''-'' else is_hex_digit c)"
  by (simp add: uuid_char_ok_def hyphen_positions_def)

text \<open>
  The executable predicate \<open>canonical_uuid\<close> says what its name promises: 36 characters,
  a hyphen at positions 8, 13, 18 and 23, a hexadecimal digit at every other position.
\<close>

lemma canonical_uuid_iff:
  "canonical_uuid s \<longleftrightarrow>
     length s = 36 \<and>
     (\<forall>i < 36. if i \<in> {8, 13, 18, 23} then s ! i = CHR ''-'' else is_hex_digit (s ! i))"
  unfolding canonical_uuid_def list_all_enumerate uuid_char_ok_iff
  by (cases "length s = 36") simp_all

text \<open>
  Claim C1. Each of \<open>BLE_SERVICE_UUID\<close> and \<open>DATA_CHAR_UUID\<close> is exactly 36 characters
  long and in the canonical 8-4-4-4-12 form: hyphens at positions 8, 13, 18 and 23,
  hexadecimal digits everywhere else.
\<close>

theorem uuids_canonical:
  "length BLE_SERVICE_UUID = 36 \<and> canonical_uuid BLE_SERVICE_UUID
   \<and> length DATA_CHAR_UUID = 36 \<and> canonical_uuid DATA_CHAR_UUID"
  by (simp add: canonical_uuid_def BLE_SERVICE_UUID_def DATA_CHAR_UUID_def
      enumerate_eq_zip upt_rec uuid_char_ok_def hyphen_positions_def is_hex_digit_def)

text \<open>
  Claim C2. \<open>BLE_SERVICE_UUID\<close> and \<open>DATA_CHAR_UUID\<close> are distinct strings, and the
  128-bit values they denote are distinct too.
\<close>

theorem uuids_distinct:
  "BLE_SERVICE_UUID \<noteq> DATA_CHAR_UUID
   \<and> uuid_value BLE_SERVICE_UUID = 0x1234567812345678123456789abcdef0
   \<and> uuid_value DATA_CHAR_UUID = 0x87654321432187654321fedcba987654
   \<and> uuid_value BLE_SERVICE_UUID \<noteq> uuid_value DATA_CHAR_UUID"
  by (simp add: uuid_value_def BLE_SERVICE_UUID_def DATA_CHAR_UUID_def hex_digit_value_def)

text \<open>
  Claim C9. Every hexadecimal digit of the two UUID strings is a decimal digit or a
  lowercase letter: neither string holds an uppercase letter, so folding to lower case
  changes neither, and a case-sensitive comparison agrees with a case-insensitive one.
\<close>

theorem uuids_lowercase:
  "list_all (\<lambda>c. c = CHR ''-'' \<or> is_lower_hex_digit c) BLE_SERVICE_UUID
   \<and> list_all (\<lambda>c. c = CHR ''-'' \<or> is_lower_hex_digit c) DATA_CHAR_UUID
   \<and> \<not> list_ex is_upper BLE_SERVICE_UUID
   \<and> \<not> list_ex is_upper DATA_CHAR_UUID
   \<and> map ascii_tolower BLE_SERVICE_UUID = BLE_SERVICE_UUID
   \<and> map ascii_tolower DATA_CHAR_UUID = DATA_CHAR_UUID"
  by (simp add: BLE_SERVICE_UUID_def DATA_CHAR_UUID_def is_lower_hex_digit_def
      is_upper_def ascii_tolower_def)

subsection \<open>The numbers and the names\<close>

text \<open>
  Claim C3. Both buffer capacities are positive, and the outbound-payload capacity
  \<open>TX_PAYLOAD_MAX_SIZE\<close> (256) is at least the encoded-message capacity
  \<open>JSON_BUFFER_SIZE\<close> (64).
\<close>

theorem buffer_sizes_positive_and_ordered:
  "0 < JSON_BUFFER_SIZE \<and> 0 < TX_PAYLOAD_MAX_SIZE
   \<and> JSON_BUFFER_SIZE \<le> TX_PAYLOAD_MAX_SIZE
   \<and> JSON_BUFFER_SIZE = 64 \<and> TX_PAYLOAD_MAX_SIZE = 256"
  by (simp add: JSON_BUFFER_SIZE_def TX_PAYLOAD_MAX_SIZE_def)

text \<open>
  Claim C4. The reading interval \<open>READING_INTERVAL_MS\<close> is positive and equals 5000
  (milliseconds).
\<close>

theorem reading_interval_positive_5000:
  "0 < READING_INTERVAL_MS \<and> READING_INTERVAL_MS = 5000"
  by (simp add: READING_INTERVAL_MS_def)

text \<open>
  Claim C5. The serial rate \<open>BAUD_RATE\<close> is positive, is one of the standard serial
  rates and equals 115200 (bits per second).
\<close>

theorem baud_rate_standard_115200:
  "0 < BAUD_RATE \<and> BAUD_RATE \<in> set standard_baud_rates \<and> BAUD_RATE = 115200"
  by (simp add: BAUD_RATE_def standard_baud_rates_def)

text \<open>
  Claim C6. Both identity strings, \<open>DEVICE_ID\<close> and \<open>BLE_LOCAL_NAME\<close>, are non-empty
  (18 and 14 characters).
\<close>

theorem identity_strings_nonempty:
  "DEVICE_ID \<noteq> [] \<and> BLE_LOCAL_NAME \<noteq> []
   \<and> length DEVICE_ID = 18 \<and> length BLE_LOCAL_NAME = 14"
  by (simp add: DEVICE_ID_def BLE_LOCAL_NAME_def)

section \<open>Reading the header\<close>




















subsection \<open>Definition, use and change of the constants\<close>




subsection \<open>Named lookup of the constants\<close>




text \<open>
  Claim C10. The numeric macros of the header are the four constants
  \<open>READING_INTERVAL_MS\<close>, \<open>BAUD_RATE\<close>, \<open>JSON_BUFFER_SIZE\<close> and \<open>TX_PAYLOAD_MAX_SIZE\<close>;
  each is spelled as a decimal constant whose value is 5000, 115200, 64 and 256; each
  fits a signed 32-bit integer (converting to 32 bits and back gives the same value);
  all but \<open>BAUD_RATE\<close> fit a signed 16-bit integer, and \<open>BAUD_RATE\<close> does not (in 16 bits
  it would read as -15872).
\<close>

theorem numeric_constants_fit:
  "concat (map numeric_macro config_h) =
     [(''READING_INTERVAL_MS'', ''5000''), (''BAUD_RATE'', ''115200''),
      (''JSON_BUFFER_SIZE'', ''64''), (''TX_PAYLOAD_MAX_SIZE'', ''256'')]
   \<and> decimal_constant ''5000'' = Some READING_INTERVAL_MS
   \<and> decimal_constant ''115200'' = Some BAUD_RATE
   \<and> decimal_constant ''64'' = Some JSON_BUFFER_SIZE
   \<and> decimal_constant ''256'' = Some TX_PAYLOAD_MAX_SIZE
   \<and> fits_signed 32 READING_INTERVAL_MS \<and> fits_signed 32 BAUD_RATE
   \<and> fits_signed 32 JSON_BUFFER_SIZE \<and> fits_signed 32 TX_PAYLOAD_MAX_SIZE
   \<and> sint (word_of_int READING_INTERVAL_MS :: 32 word) = READING_INTERVAL_MS
   \<and> sint (word_of_int BAUD_RATE :: 32 word) = BAUD_RATE
   \<and> sint (word_of_int JSON_BUFFER_SIZE :: 32 word) = JSON_BUFFER_SIZE
   \<and> sint (word_of_int TX_PAYLOAD_MAX_SIZE :: 32 word) = TX_PAYLOAD_MAX_SIZE
   \<and> fits_signed 16 READING_INTERVAL_MS \<and> fits_signed 16 JSON_BUFFER_SIZE
   \<and> fits_signed 16 TX_PAYLOAD_MAX_SIZE
   \<and> \<not> fits_signed 16 BAUD_RATE
   \<and> sint (word_of_int BAUD_RATE :: 16 word) = - 15872"
  by (simp add: config_h_def is_digit_def digit_value_def fits_signed_def
      READING_INTERVAL_MS_def BAUD_RATE_def JSON_BUFFER_SIZE_def TX_PAYLOAD_MAX_SIZE_def)

end
